theory Spec2Isabelle
  imports Complex_Main "HOL-Library.Sublist"
begin

section \<open>Python values\<close>

text \<open>
  The three modules of the relay (\<^verbatim>\<open>app/cliente_whatsapp.py\<close>, \<^verbatim>\<open>app/cliente_openai.py\<close>,
  \<^verbatim>\<open>app/webhook.py\<close>) work on the values \<^verbatim>\<open>json.loads\<close> produces: \<^verbatim>\<open>None\<close>, booleans,
  unbounded integers, floats, strings, lists and dicts.

  A Python \<^verbatim>\<open>str\<close> is modelled as a \<open>string\<close> holding its UTF-8 bytes, so a character
  outside ASCII is written as its bytes (\<open>\<^verbatim>\<open>e-acute\<close> = [CHR 0xC3, CHR 0xA9]\<close>).
  A dict is an association list read with \<open>map_of\<close>: the first binding of a key is the
  value of the key, and a Python dict is the list of its items in insertion order.
  Of a float only its being zero is ever observed by this code (truthiness); it is
  carried as a real number.
\<close>

datatype json =
    JNull
  | JBool bool
  | JInt int
  | JFloat real
  | JStr string
  | JList "json list"
  | JDict "(string \<times> json) list"

type_synonym dict = "(string \<times> json) list"

text \<open>
  Every exception the modelled code can raise. \<open>ValueError\<close> carries the message given
  by the source. \<open>IntValueError s\<close> is the \<^verbatim>\<open>ValueError\<close> raised by the builtin \<^verbatim>\<open>int(s)\<close>; of
  its two messages (invalid literal, digit limit exceeded) neither is modelled, only
  the argument is kept. \<open>ExternalError\<close> stands for whatever a collaborator (the HTTP
  transport, the completion service, the request body decoder) raises.
\<close>

datatype error =
    KeyError string
  | AttributeError string
  | TypeError
  | IndexError
  | ValueError string
  | IntValueError string
  | AssertionError string
  | ExternalError string

text \<open>Sequencing of computations that may raise: the first exception wins.\<close>

definition ebind :: "error + 'a \<Rightarrow> ('a \<Rightarrow> error + 'b) \<Rightarrow> error + 'b" where
  "ebind r f = (case r of Inl e \<Rightarrow> Inl e | Inr x \<Rightarrow> f x)"

text \<open>\<^verbatim>\<open>bool(v)\<close>, as \<^verbatim>\<open>if v:\<close> and \<^verbatim>\<open>a and b\<close> test it.\<close>

fun truthy :: "json \<Rightarrow> bool" where
  "truthy JNull = False"
| "truthy (JBool b) = b"
| "truthy (JInt i) = (i \<noteq> 0)"
| "truthy (JFloat r) = (r \<noteq> 0)"
| "truthy (JStr s) = (s \<noteq> [])"
| "truthy (JList xs) = (xs \<noteq> [])"
| "truthy (JDict d) = (d \<noteq> [])"

text \<open>\<^verbatim>\<open>d.get(key, default)\<close> on a dict; \<^verbatim>\<open>d.get(key)\<close> is \<open>dict_get d key JNull\<close>.\<close>

definition dict_get :: "dict \<Rightarrow> string \<Rightarrow> json \<Rightarrow> json" where
  "dict_get d k dflt = (case map_of d k of None \<Rightarrow> dflt | Some v \<Rightarrow> v)"

text \<open>
  \<^verbatim>\<open>obj.get(key, default)\<close> on any value: only a dict has the method; any other value
  raises \<^verbatim>\<open>AttributeError\<close>.
\<close>

fun py_get :: "json \<Rightarrow> string \<Rightarrow> json \<Rightarrow> error + json" where
  "py_get (JDict d) k dflt = Inr (dict_get d k dflt)"
| "py_get _ k dflt = Inl (AttributeError ''get'')"

text \<open>
  \<^verbatim>\<open>obj[key]\<close> for a string key: \<^verbatim>\<open>KeyError\<close> on a dict without the key, \<^verbatim>\<open>TypeError\<close> on
  every other value (a list or a string is indexed by integers, the rest is not
  subscriptable).
\<close>

fun py_getitem :: "json \<Rightarrow> string \<Rightarrow> error + json" where
  "py_getitem (JDict d) k = (case map_of d k of None \<Rightarrow> Inl (KeyError k) | Some v \<Rightarrow> Inr v)"
| "py_getitem _ k = Inl TypeError"

text \<open>
  \<^verbatim>\<open>key in obj\<close> for a string key: key membership in a dict, element membership in a
  list (a \<^verbatim>\<open>str\<close> equals only a \<^verbatim>\<open>str\<close>), substring test in a string, \<^verbatim>\<open>TypeError\<close> on a
  value that is not a container.
\<close>

fun py_contains :: "string \<Rightarrow> json \<Rightarrow> error + bool" where
  "py_contains k (JDict d) = Inr (k \<in> fst ` set d)"
| "py_contains k (JList xs) = Inr (JStr k \<in> set xs)"
| "py_contains k (JStr s) = Inr (sublist k s)"
| "py_contains k _ = Inl TypeError"

text \<open>
  The items a \<^verbatim>\<open>for\<close> loop visits: the elements of a list, the keys of a dict, the
  characters of a string (each a one-character \<^verbatim>\<open>str\<close>; the model yields one per byte,
  which differs from Python's count only outside ASCII); \<^verbatim>\<open>TypeError\<close> on a value that
  is not iterable.
\<close>

fun py_iter :: "json \<Rightarrow> error + json list" where
  "py_iter (JList xs) = Inr xs"
| "py_iter (JDict d) = Inr (map (\<lambda>kv. JStr (fst kv)) d)"
| "py_iter (JStr s) = Inr (map (\<lambda>c. JStr [c]) s)"
| "py_iter _ = Inl TypeError"

section \<open>\<^verbatim>\<open>WhatsAppClient.process_notification\<close>\<close>

text \<open>
  \<^verbatim>\<open>json.dumps("M\u00e9todo n\u00e3o suportado")\<close> with the default \<^verbatim>\<open>ensure_ascii=True\<close>: the
  text between double quotes, each character outside ASCII escaped as a backslash,
  \<^verbatim>\<open>u\<close> and four hexadecimal digits. The result is a 32-character ASCII string.
\<close>

definition unsupported_body :: string where
  "unsupported_body =
     [CHR 0x22] @ ''M'' @ [CHR 0x5C] @ ''u00e9todo n'' @ [CHR 0x5C] @ ''u00e3o suportado''
     @ [CHR 0x22]"

text \<open>The dict returned after the loops, when no text message was found.\<close>

definition not_processable :: dict where
  "not_processable =
     [(''statusCode'', JInt 403),
      (''body'', JStr unsupported_body),
      (''isBase64Encoded'', JBool False)]"

text \<open>
  The body of the innermost \<^verbatim>\<open>if message.get("type") == "text":\<close>, which ends in the
  \<^verbatim>\<open>return\<close>. \<^verbatim>\<open>message.get("from")\<close> is defaulted; \<^verbatim>\<open>message["text"]\<close> is a subscript and
  raises \<^verbatim>\<open>KeyError\<close> when the key is missing; \<^verbatim>\<open>.get("body")\<close> is then called on
  whatever \<^verbatim>\<open>message["text"]\<close> is.
\<close>

definition text_reply :: "json \<Rightarrow> error + dict" where
  "text_reply message =
     ebind (py_get message ''from'' JNull) (\<lambda>from_no.
     ebind (py_getitem message ''text'') (\<lambda>text_obj.
     ebind (py_get text_obj ''body'' JNull) (\<lambda>message_body.
       Inr [(''statusCode'', JInt 200),
            (''body'', message_body),
            (''from_no'', from_no),
            (''isBase64Encoded'', JBool False)])))"

text \<open>
  The three nested \<^verbatim>\<open>for\<close> loops, innermost first. Each returns \<open>Inr (Some r)\<close> when the
  function returned \<open>r\<close> from inside the loop, \<open>Inr None\<close> when the loop ran to its end,
  and \<open>Inl e\<close> when an iteration raised \<open>e\<close>.
\<close>

fun scan_messages :: "json list \<Rightarrow> error + dict option" where
  "scan_messages [] = Inr None"
| "scan_messages (message # rest) =
     ebind (py_get message ''type'' JNull) (\<lambda>ty.
       if ty = JStr ''text'' then ebind (text_reply message) (\<lambda>r. Inr (Some r))
       else scan_messages rest)"

fun scan_changes :: "json list \<Rightarrow> error + dict option" where
  "scan_changes [] = Inr None"
| "scan_changes (change # rest) =
     ebind (py_get change ''value'' JNull) (\<lambda>v.
       if truthy v then
         ebind (py_contains ''messages'' v) (\<lambda>has_messages.
           if has_messages then
             ebind (py_getitem v ''messages'') (\<lambda>msgs.
             ebind (py_iter msgs) (\<lambda>messages.
             ebind (scan_messages messages) (\<lambda>found.
               case found of Some r \<Rightarrow> Inr (Some r) | None \<Rightarrow> scan_changes rest)))
           else scan_changes rest)
       else scan_changes rest)"

fun scan_entries :: "json list \<Rightarrow> error + dict option" where
  "scan_entries [] = Inr None"
| "scan_entries (entry # rest) =
     ebind (py_get entry ''changes'' (JList [])) (\<lambda>chs.
     ebind (py_iter chs) (\<lambda>changes.
     ebind (scan_changes changes) (\<lambda>found.
       case found of Some r \<Rightarrow> Inr (Some r) | None \<Rightarrow> scan_entries rest)))"

definition process_notification :: "json \<Rightarrow> error + dict" where
  "process_notification data =
     ebind (py_get data ''entry'' (JList [])) (\<lambda>ents.
     ebind (py_iter ents) (\<lambda>entries.
     ebind (scan_entries entries) (\<lambda>found.
       case found of Some r \<Rightarrow> Inr r | None \<Rightarrow> Inr not_processable)))"

section \<open>The notification parser as described\<close>

text \<open>
  The description of the parser: the payload is a sequence of entries, each with a
  sequence of changes, each with an optional value holding a sequence of messages; any
  level may be absent. \<open>all_messages\<close> lists the messages of a payload in scan order
  (entries, then changes, then messages).
\<close>

definition is_dict :: "json \<Rightarrow> bool" where
  "is_dict j = (case j of JDict d \<Rightarrow> True | _ \<Rightarrow> False)"

definition entries_of :: "dict \<Rightarrow> json list" where
  "entries_of data = (case map_of data ''entry'' of Some (JList es) \<Rightarrow> es | _ \<Rightarrow> [])"

definition changes_of :: "json \<Rightarrow> json list" where
  "changes_of entry =
     (case entry of
        JDict e \<Rightarrow> (case map_of e ''changes'' of Some (JList cs) \<Rightarrow> cs | _ \<Rightarrow> [])
      | _ \<Rightarrow> [])"

definition messages_of :: "json \<Rightarrow> json list" where
  "messages_of change =
     (case change of
        JDict c \<Rightarrow>
          (case map_of c ''value'' of
             Some (JDict v) \<Rightarrow> (case map_of v ''messages'' of Some (JList ms) \<Rightarrow> ms | _ \<Rightarrow> [])
           | _ \<Rightarrow> [])
      | _ \<Rightarrow> [])"

definition all_messages :: "dict \<Rightarrow> json list" where
  "all_messages data =
     concat (map (\<lambda>entry. concat (map messages_of (changes_of entry))) (entries_of data))"

text \<open>A message whose declared type is "text".\<close>

definition is_text_message :: "json \<Rightarrow> bool" where
  "is_text_message m = (case m of JDict d \<Rightarrow> map_of d ''type'' = Some (JStr ''text'') | _ \<Rightarrow> False)"

text \<open>
  Correct nesting, as far as the scan goes: every level is either absent or of the
  documented kind (\<^verbatim>\<open>entry\<close> a list of dicts, \<^verbatim>\<open>changes\<close> a list of dicts, \<^verbatim>\<open>value\<close> a dict,
  \<^verbatim>\<open>messages\<close> a list of dicts), up to and including the first message of type text.
  A \<^verbatim>\<open>value\<close> that tests false (\<^verbatim>\<open>null\<close>, for one) counts as absent, as \<^verbatim>\<open>if value:\<close> treats
  it. What comes after the first message of type text is not constrained.
  \<open>all_until ok stop xs\<close> says that every element of \<open>xs\<close> up to and including the first
  one that satisfies \<open>stop\<close> is \<open>ok\<close>; when no element satisfies \<open>stop\<close> that is
  \<open>list_all ok xs\<close>.
\<close>

fun all_until :: "('a \<Rightarrow> bool) \<Rightarrow> ('a \<Rightarrow> bool) \<Rightarrow> 'a list \<Rightarrow> bool" where
  "all_until ok stop [] = True"
| "all_until ok stop (x # xs) = (ok x \<and> (stop x \<or> all_until ok stop xs))"

definition well_nested_value :: "json \<Rightarrow> bool" where
  "well_nested_value v =
     (\<not> truthy v \<or>
      (case v of
         JDict d \<Rightarrow>
           (case map_of d ''messages'' of
              None \<Rightarrow> True
            | Some (JList ms) \<Rightarrow> all_until is_dict is_text_message ms
            | _ \<Rightarrow> False)
       | _ \<Rightarrow> False))"

definition well_nested_change :: "json \<Rightarrow> bool" where
  "well_nested_change change =
     (case change of
        JDict c \<Rightarrow> (case map_of c ''value'' of None \<Rightarrow> True | Some v \<Rightarrow> well_nested_value v)
      | _ \<Rightarrow> False)"

definition change_has_text :: "json \<Rightarrow> bool" where
  "change_has_text change = list_ex is_text_message (messages_of change)"

definition well_nested_entry :: "json \<Rightarrow> bool" where
  "well_nested_entry entry =
     (case entry of
        JDict e \<Rightarrow>
          (case map_of e ''changes'' of
             None \<Rightarrow> True
           | Some (JList cs) \<Rightarrow> all_until well_nested_change change_has_text cs
           | _ \<Rightarrow> False)
      | _ \<Rightarrow> False)"

definition entry_has_text :: "json \<Rightarrow> bool" where
  "entry_has_text entry = list_ex change_has_text (changes_of entry)"

definition well_nested :: "dict \<Rightarrow> bool" where
  "well_nested data =
     (case map_of data ''entry'' of
        None \<Rightarrow> True
      | Some (JList es) \<Rightarrow> all_until well_nested_entry entry_has_text es
      | _ \<Rightarrow> False)"

section \<open>The collaborators\<close>

text \<open>
  The code reaches three things outside itself: the process environment
  (\<^verbatim>\<open>os.environ\<close>, after \<^verbatim>\<open>load_dotenv()\<close>), the HTTP transport (\<^verbatim>\<open>requests.post\<close>) and the
  completion service (\<^verbatim>\<open>client.chat.completions.create\<close>). They are fields of a
  \<open>world\<close>; a transport answers a request with a response or raises. Every outbound
  call is appended to a trace, which the functions below take and return.
  \<^verbatim>\<open>print\<close> is not modelled.

  Two settings of the interpreter are fields of the world as well, because the builtin
  \<^verbatim>\<open>int()\<close> depends on them: \<^verbatim>\<open>sys.get_int_max_str_digits()\<close> (4300 unless reconfigured,
  0 for no limit) and the decimal digits of the interpreter's Unicode database
  (\<^verbatim>\<open>unicodedata.decimal\<close>, consulted for the code points from 127 on; the set grows with
  the Unicode version).
\<close>

record http_response =
  status_code :: int
  response_text :: string

text \<open>
  The keyword arguments of \<^verbatim>\<open>chat.completions.create\<close> and the part of its answer the
  code reads: \<^verbatim>\<open>completion.choices[0].message.content\<close>, an optional string.
\<close>

record chat_request =
  model :: string
  messages :: "dict list"

record completion_message =
  message_content :: "string option"

record completion_choice =
  choice_message :: completion_message

record chat_completion =
  completion_choices :: "completion_choice list"

record world =
  environ :: "string \<rightharpoonup> string"
  requests_post :: "string \<Rightarrow> json \<Rightarrow> (string \<times> string) list \<Rightarrow> error + http_response"
  chat_completions_create :: "string \<Rightarrow> chat_request \<Rightarrow> error + chat_completion"
  int_max_str_digits :: nat
  unicode_decimal :: "nat \<Rightarrow> nat option"

datatype call =
    RequestsPost string json "(string \<times> string) list"
  | ChatCompletionsCreate string chat_request

type_synonym 'a io = "call list \<Rightarrow> (error + 'a) \<times> call list"

definition io_bind :: "'a io \<Rightarrow> ('a \<Rightarrow> 'b io) \<Rightarrow> 'b io" where
  "io_bind m f tr = (case m tr of (Inl e, tr') \<Rightarrow> (Inl e, tr') | (Inr x, tr') \<Rightarrow> f x tr')"

definition io_lift :: "error + 'a \<Rightarrow> 'a io" where
  "io_lift r tr = (r, tr)"

text \<open>\<^verbatim>\<open>str(x)\<close> and \<^verbatim>\<open>f"{x}"\<close> of an optional string: \<^verbatim>\<open>None\<close> prints as \<^verbatim>\<open>None\<close>.\<close>

definition py_str :: "string option \<Rightarrow> string" where
  "py_str x = (case x of None \<Rightarrow> ''None'' | Some s \<Rightarrow> s)"

section \<open>\<^verbatim>\<open>WhatsAppClient\<close>\<close>

record whatsapp_client =
  headers :: "(string \<times> string) list"
  API_URL :: string

text \<open>
  \<^verbatim>\<open>__init__\<close>: the two credentials are read from the environment and are not checked;
  a missing one is formatted as \<^verbatim>\<open>None\<close>.
\<close>

definition WhatsAppClient_init :: "(string \<rightharpoonup> string) \<Rightarrow> whatsapp_client" where
  "WhatsAppClient_init env =
     \<lparr>headers =
        [(''Authorization'', ''Bearer '' @ py_str (env ''WHATSAPP_API_TOKEN'')),
         (''Content-Type'', ''application/json'')],
      API_URL = ''https://graph.facebook.com/v15.0/'' @ py_str (env ''WHATSAPP_CLOUD_NUMBER_ID'')\<rparr>"

text \<open>\<^verbatim>\<open>requests.post(url, json=payload, headers=headers)\<close>, recorded in the trace.\<close>

definition post :: "world \<Rightarrow> string \<Rightarrow> json \<Rightarrow> (string \<times> string) list \<Rightarrow> http_response io" where
  "post w url payload hdrs tr = (requests_post w url payload hdrs, tr @ [RequestsPost url payload hdrs])"

text \<open>
  The two send methods. \<open>template_payload\<close> and \<open>text_payload\<close> are the dict literals
  bound to \<^verbatim>\<open>payload\<close>. The \<^verbatim>\<open>assert response.status_code == 200, f"...{response.text}"\<close>
  raises \<^verbatim>\<open>AssertionError\<close> with the formatted message (assertions enabled, as they are
  unless the interpreter runs with \<^verbatim>\<open>-O\<close>).
\<close>

definition template_payload :: "json \<Rightarrow> json \<Rightarrow> json \<Rightarrow> json" where
  "template_payload template_name language_code phone_number =
     JDict
       [(''messaging_product'', JStr ''whatsapp''),
        (''to'', phone_number),
        (''type'', JStr ''template''),
        (''template'', JDict
           [(''name'', template_name),
            (''language'', JDict [(''code'', language_code)])])]"

definition send_template_message ::
  "world \<Rightarrow> whatsapp_client \<Rightarrow> json \<Rightarrow> json \<Rightarrow> json \<Rightarrow> int io" where
  "send_template_message w self template_name language_code phone_number =
     (let payload = template_payload template_name language_code phone_number
      in io_bind (post w (API_URL self @ ''/messages'') payload (headers self)) (\<lambda>response.
           if status_code response = 200 then io_lift (Inr (status_code response))
           else io_lift (Inl (AssertionError
                  (''Erro ao enviar mensagem de template: '' @ response_text response)))))"

definition text_payload :: "json \<Rightarrow> json \<Rightarrow> json" where
  "text_payload message phone_number =
     JDict
       [(''messaging_product'', JStr ''whatsapp''),
        (''to'', phone_number),
        (''type'', JStr ''text''),
        (''text'', JDict
           [(''preview_url'', JBool False),
            (''body'', message)])]"

definition send_text_message :: "world \<Rightarrow> whatsapp_client \<Rightarrow> json \<Rightarrow> json \<Rightarrow> int io" where
  "send_text_message w self message phone_number =
     (let payload = text_payload message phone_number
      in io_bind (post w (API_URL self @ ''/messages'') payload (headers self)) (\<lambda>response.
           if status_code response = 200 then io_lift (Inr (status_code response))
           else io_lift (Inl (AssertionError
                  (''Erro ao enviar mensagem de texto: '' @ response_text response)))))"

section \<open>\<^verbatim>\<open>OpenAIClient\<close>\<close>

record openai_client =
  api_key :: string

definition missing_key_message :: string where
  "missing_key_message =
     ''A vari'' @ [CHR 0xC3, CHR 0xA1] @ ''vel '' @ [CHR 0x27] @ ''OPENAI_API_KEY'' @ [CHR 0x27]
     @ '' n'' @ [CHR 0xC3, CHR 0xA3] @ ''o est'' @ [CHR 0xC3, CHR 0xA1]
     @ '' definida nas vari'' @ [CHR 0xC3, CHR 0xA1] @ ''veis de ambiente.''"

text \<open>
  \<^verbatim>\<open>__init__\<close>: \<^verbatim>\<open>if not api_key: raise ValueError(...)\<close> refuses a missing variable and an
  empty one alike. Building the \<^verbatim>\<open>OpenAI\<close> object makes no request.
\<close>

definition OpenAIClient_init :: "world \<Rightarrow> openai_client io" where
  "OpenAIClient_init w =
     (case environ w ''OPENAI_API_KEY'' of
        None \<Rightarrow> io_lift (Inl (ValueError missing_key_message))
      | Some k \<Rightarrow>
          if k = [] then io_lift (Inl (ValueError missing_key_message))
          else io_lift (Inr \<lparr>api_key = k\<rparr>))"

definition developer_instruction :: string where
  "developer_instruction =
     ''Voc'' @ [CHR 0xC3, CHR 0xAA] @ '' '' @ [CHR 0xC3, CHR 0xA9] @ '' um chatbot e s''
     @ [CHR 0xC3, CHR 0xB3] @ '' deve responder perguntas relacionadas ao tema: d''
     @ [CHR 0xC3, CHR 0xBA] @ ''vidas de programa'' @ [CHR 0xC3, CHR 0xA7, CHR 0xC3, CHR 0xA3]
     @ ''o. Cordialmente, diga que n'' @ [CHR 0xC3, CHR 0xA3]
     @ ''o pode ajudar em outros temas.''"

text \<open>
  \<^verbatim>\<open>complete\<close>: one call with the model name and the two-message context, then
  \<^verbatim>\<open>completion.choices[0].message.content\<close>; \<^verbatim>\<open>choices[0]\<close> of an empty list raises
  \<^verbatim>\<open>IndexError\<close>. The argument is whatever the caller passes (the handler passes the
  body found in the notification).
\<close>

definition complete :: "world \<Rightarrow> openai_client \<Rightarrow> json \<Rightarrow> string option io" where
  "complete w self message tr =
     (let request =
            \<lparr>model = ''gpt-4o'',
             messages =
               [[(''role'', JStr ''developer''), (''content'', JStr developer_instruction)],
                [(''role'', JStr ''user''), (''content'', message)]]\<rparr>;
          tr' = tr @ [ChatCompletionsCreate (api_key self) request]
      in case chat_completions_create w (api_key self) request of
           Inl e \<Rightarrow> (Inl e, tr')
         | Inr completion \<Rightarrow>
             (case completion_choices completion of
                [] \<Rightarrow> (Inl IndexError, tr')
              | choice # _ \<Rightarrow> (Inr (message_content (choice_message choice)), tr')))"

section \<open>The webhook handlers\<close>

text \<open>
  What the handlers read of the request: the query parameters as \<^verbatim>\<open>query_params.get\<close>
  sees them, and the outcome of \<^verbatim>\<open>await request.json()\<close>.
\<close>

record request =
  query_params :: "string \<rightharpoonup> string"
  json_body :: "error + json"

subsection \<open>The builtin \<^verbatim>\<open>int()\<close> on a string\<close>

text \<open>
  \<^verbatim>\<open>int(s)\<close> in base 10, as CPython computes it.

  A string with a character outside ASCII is first rewritten to ASCII, character by
  character: a code point below 127 stays, a Unicode whitespace character becomes a
  space, a Unicode decimal digit becomes the ASCII digit of its value, and at the first
  other character the rewriting stops with a question mark. An ASCII string is taken
  as it is.

  The ASCII text is then read: whitespace at both ends is dropped (the six characters
  of C's \<^verbatim>\<open>isspace\<close>: tab, line feed, vertical tab, form feed, carriage return, space; the
  separators 28 to 31, which \<^verbatim>\<open>str.isspace\<close> accepts, are not dropped), then comes an
  optional sign, then decimal digits in which single underscores may separate two
  digits. Anything else raises \<^verbatim>\<open>ValueError\<close>. A literal of more digits than the limit of
  the interpreter also raises \<^verbatim>\<open>ValueError\<close> (the limit applies above 640 digits and when it
  is not 0; leading zeros count). CPython tests the limit before it looks at what
  follows the digits, so which of the two messages a string that fails both ways gets
  depends on that order; the model has one error for both.

  \<open>utf8_decode\<close> turns the bytes of a string into its code points; it is meant for the
  UTF-8 of a \<^verbatim>\<open>str\<close> and does not validate.
\<close>

definition ascii :: "string \<Rightarrow> bool" where
  "ascii s = list_all (\<lambda>c. (of_char c :: nat) < 128) s"

definition continuation :: "char \<Rightarrow> nat" where
  "continuation c = of_char c - 128"

fun utf8_decode :: "string \<Rightarrow> nat list" where
  "utf8_decode [] = []"
| "utf8_decode (c # cs) =
     (if (of_char c :: nat) < 128 then of_char c # utf8_decode cs
      else if (of_char c :: nat) < 224 then
        (case cs of
           c1 # r \<Rightarrow> ((of_char c - 192) * 64 + continuation c1) # utf8_decode r
         | _ \<Rightarrow> [of_char c])
      else if (of_char c :: nat) < 240 then
        (case cs of
           c1 # c2 # r \<Rightarrow>
             ((of_char c - 224) * 4096 + continuation c1 * 64 + continuation c2) # utf8_decode r
         | _ \<Rightarrow> [of_char c])
      else
        (case cs of
           c1 # c2 # c3 # r \<Rightarrow>
             ((of_char c - 240) * 262144 + continuation c1 * 4096 + continuation c2 * 64
                + continuation c3) # utf8_decode r
         | _ \<Rightarrow> [of_char c]))"

text \<open>The whitespace characters of \<^verbatim>\<open>str.isspace\<close> from code point 128 on.\<close>

definition unicode_space :: "nat \<Rightarrow> bool" where
  "unicode_space cp =
     (cp \<in> {0x85, 0xA0, 0x1680, 0x2028, 0x2029, 0x202F, 0x205F, 0x3000}
      \<or> (0x2000 \<le> cp \<and> cp \<le> 0x200A))"

fun decimal_and_space_to_ascii :: "(nat \<Rightarrow> nat option) \<Rightarrow> nat list \<Rightarrow> string" where
  "decimal_and_space_to_ascii dec [] = []"
| "decimal_and_space_to_ascii dec (cp # cps) =
     (if cp < 127 then char_of cp # decimal_and_space_to_ascii dec cps
      else if unicode_space cp then CHR '' '' # decimal_and_space_to_ascii dec cps
      else (case dec cp of
              Some d \<Rightarrow> char_of (48 + d) # decimal_and_space_to_ascii dec cps
            | None \<Rightarrow> ''?''))"

definition int_text :: "world \<Rightarrow> string \<Rightarrow> string" where
  "int_text w s =
     (if ascii s then s else decimal_and_space_to_ascii (unicode_decimal w) (utf8_decode s))"

definition c_isspace :: "char \<Rightarrow> bool" where
  "c_isspace c = (of_char c \<in> {9, 10, 11, 12, 13, 32 :: nat})"

definition is_digit :: "char \<Rightarrow> bool" where
  "is_digit c = (48 \<le> (of_char c :: nat) \<and> (of_char c :: nat) \<le> 57)"

definition py_strip :: "string \<Rightarrow> string" where
  "py_strip s = rev (dropWhile c_isspace (rev (dropWhile c_isspace s)))"

definition unsigned :: "string \<Rightarrow> string" where
  "unsigned s =
     (case s of
        [] \<Rightarrow> []
      | c # cs \<Rightarrow> if c = CHR ''+'' \<or> c = CHR ''-'' then cs else s)"

fun digits_tail :: "string \<Rightarrow> bool" where
  "digits_tail [] = True"
| "digits_tail (c # cs) =
     (if is_digit c then digits_tail cs
      else if c = CHR ''_'' then (case cs of [] \<Rightarrow> False | d # ds \<Rightarrow> is_digit d \<and> digits_tail ds)
      else False)"

definition digit_part :: "string \<Rightarrow> bool" where
  "digit_part s = (case s of [] \<Rightarrow> False | c # cs \<Rightarrow> is_digit c \<and> digits_tail cs)"

text \<open>The strings \<^verbatim>\<open>int()\<close> reads as a decimal integer literal.\<close>

definition decimal_integer_string :: "world \<Rightarrow> string \<Rightarrow> bool" where
  "decimal_integer_string w s = digit_part (unsigned (py_strip (int_text w s)))"

text \<open>The literal has more digits than the interpreter converts.\<close>

definition exceeds_digit_limit :: "world \<Rightarrow> string \<Rightarrow> bool" where
  "exceeds_digit_limit w s =
     (let digits = length (filter is_digit (int_text w s)) in
      640 < digits \<and> 0 < int_max_str_digits w \<and> int_max_str_digits w < digits)"

text \<open>The value of a literal: its digits read in base 10, negated after a minus sign.\<close>

definition digits_value :: "string \<Rightarrow> int" where
  "digits_value s = foldl (\<lambda>n c. 10 * n + (int (of_char c) - 48)) 0 (filter is_digit s)"

definition literal_value :: "world \<Rightarrow> string \<Rightarrow> int" where
  "literal_value w s =
     (let t = py_strip (int_text w s) in
      (if take 1 t = ''-'' then - 1 else 1) * digits_value t)"

definition py_int :: "world \<Rightarrow> string \<Rightarrow> error + int" where
  "py_int w s =
     (if \<not> decimal_integer_string w s then Inl (IntValueError s)
      else if exceeds_digit_limit w s then Inl (IntValueError s)
      else Inr (literal_value w s))"

subsection \<open>\<^verbatim>\<open>GET /webhook/\<close>\<close>

definition authentication_failure :: string where
  "authentication_failure =
     ''Falha na autentica'' @ [CHR 0xC3, CHR 0xA7, CHR 0xC3, CHR 0xA3] @ ''o. Token inv''
     @ [CHR 0xC3, CHR 0xA1] @ ''lido.''"

text \<open>
  \<^verbatim>\<open>subscribe\<close>: \<^verbatim>\<open>verify_token == WHATSAPP_HOOK_TOKEN and challenge\<close> compares two optional
  strings (both are \<^verbatim>\<open>None\<close> when the parameter and the variable are missing) and tests
  the challenge for being present and non-empty; the model makes the case distinction
  on the challenge first, which has no effect on the outcome. The value returned is
  the integer or the failure text.
\<close>

definition subscribe :: "world \<Rightarrow> request \<Rightarrow> error + json" where
  "subscribe w request =
     (let WHATSAPP_HOOK_TOKEN = environ w ''WHATSAPP_HOOK_TOKEN'';
          verify_token = query_params request ''hub.verify_token'';
          challenge = query_params request ''hub.challenge''
      in case challenge of
           None \<Rightarrow> Inr (JStr authentication_failure)
         | Some c \<Rightarrow>
             if verify_token = WHATSAPP_HOOK_TOKEN \<and> c \<noteq> []
             then ebind (py_int w c) (\<lambda>n. Inr (JInt n))
             else Inr (JStr authentication_failure))"

subsection \<open>\<^verbatim>\<open>POST /webhook/\<close>\<close>

text \<open>
  \<^verbatim>\<open>v == 200\<close>: an \<^verbatim>\<open>int\<close>, a \<^verbatim>\<open>float\<close> or a \<^verbatim>\<open>bool\<close> of that numeric value; no other value
  equals a number.
\<close>

fun py_eq_int :: "json \<Rightarrow> int \<Rightarrow> bool" where
  "py_eq_int (JInt i) n = (i = n)"
| "py_eq_int (JFloat r) n = (r = of_int n)"
| "py_eq_int (JBool b) n = ((if b then 1 else 0) = n)"
| "py_eq_int _ n = False"

text \<open>The optional string returned by \<^verbatim>\<open>complete\<close>, as the value passed on.\<close>

definition json_of_reply :: "string option \<Rightarrow> json" where
  "json_of_reply r = (case r of None \<Rightarrow> JNull | Some s \<Rightarrow> JStr s)"

definition success :: "dict \<times> int" where
  "success = ([(''status'', JStr ''success'')], 200)"

text \<open>
  \<^verbatim>\<open>callback\<close>. There is no \<^verbatim>\<open>try\<close> in the handler: an exception of any step leaves it.
  The value returned is the pair written after \<^verbatim>\<open>return\<close>.
\<close>

definition callback :: "world \<Rightarrow> request \<Rightarrow> (dict \<times> int) io" where
  "callback w request =
     (let wtsapp_client = WhatsAppClient_init (environ w) in
      io_bind (io_lift (json_body request)) (\<lambda>data.
      io_bind (io_lift (process_notification data)) (\<lambda>response.
        if py_eq_int (dict_get response ''statusCode'' JNull) 200 then
          if truthy (dict_get response ''body'' JNull) \<and> truthy (dict_get response ''from_no'' JNull)
          then
            io_bind (OpenAIClient_init w) (\<lambda>openai_client.
            io_bind (io_lift (py_getitem (JDict response) ''body'')) (\<lambda>body.
            io_bind (complete w openai_client body) (\<lambda>reply.
            io_bind (io_lift (py_getitem (JDict response) ''from_no'')) (\<lambda>from_no.
            io_bind (send_text_message w wtsapp_client (json_of_reply reply) from_no) (\<lambda>sent.
              io_lift (Inr success))))))
          else io_lift (Inr success)
        else io_lift (Inr success))))"

text \<open>
  When the handler goes on to answer: the parse result has status 200 and both a body
  and a sender that are present and not empty (the two nested \<^verbatim>\<open>if\<close>s of \<^verbatim>\<open>callback\<close>).
\<close>

definition actionable :: "dict \<Rightarrow> bool" where
  "actionable response =
     (py_eq_int (dict_get response ''statusCode'' JNull) 200
      \<and> truthy (dict_get response ''body'' JNull)
      \<and> truthy (dict_get response ''from_no'' JNull))"

section \<open>The outbound payload as documented\<close>

text \<open>
  The text-message payload in the words of the description of \<^verbatim>\<open>sendText\<close>:
  \<^verbatim>\<open>{to: recipient, type: "text", text: {body: message, previewUrl: false}}\<close>.
  \<open>posted_payloads\<close> reads the payloads of the posts recorded in a trace, and
  \<open>subfield obj k1 k2\<close> is \<^verbatim>\<open>obj[k1][k2]\<close>.
\<close>

definition posted_payloads :: "call list \<Rightarrow> json list" where
  "posted_payloads tr = concat (map (\<lambda>c. case c of RequestsPost url payload hdrs \<Rightarrow> [payload] | _ \<Rightarrow> []) tr)"

definition documented_text_payload :: "json \<Rightarrow> json \<Rightarrow> json" where
  "documented_text_payload message recipient =
     JDict
       [(''to'', recipient),
        (''type'', JStr ''text''),
        (''text'', JDict [(''body'', message), (''previewUrl'', JBool False)])]"

definition subfield :: "json \<Rightarrow> string \<Rightarrow> string \<Rightarrow> error + json" where
  "subfield obj k1 k2 = ebind (py_getitem obj k1) (\<lambda>inner. py_getitem inner k2)"

section \<open>Concrete inputs\<close>

text \<open>
  Payloads, environments and stubbed collaborators on which the theorems below are
  exercised.
\<close>

text \<open>
  A notification whose first message of type text is the second message of the third
  change of the second entry; the change before has the value \<^verbatim>\<open>null\<close>. After the
  message come a message, a change and an entry that are not dicts, which the scan
  never reaches.
\<close>

definition example_notification :: dict where
  "example_notification =
     [(''object'', JStr ''whatsapp_business_account''),
      (''entry'', JList
        [JDict [(''id'', JStr ''0'')],
         JDict [(''changes'', JList
           [JDict [(''field'', JStr ''messages'')],
            JDict [(''value'', JNull)],
            JDict [(''value'', JDict
              [(''messages'', JList
                [JDict [(''type'', JStr ''image''), (''from'', JStr ''5511888888888'')],
                 JDict [(''from'', JStr ''5511999999999''), (''type'', JStr ''text''),
                        (''text'', JDict [(''body'', JStr ''what is a pointer?'')])],
                 JInt 7,
                 JDict [(''from'', JStr ''5511777777777''), (''type'', JStr ''text''),
                        (''text'', JDict [(''body'', JStr ''second'')])]])])],
            JNull])],
         JStr ''entry''])]"

text \<open>A notification with an image and a sticker, and no message of type text.\<close>

definition image_notification :: dict where
  "image_notification =
     [(''entry'', JList
        [JDict [(''changes'', JList
           [JDict [(''value'', JDict
              [(''messages'', JList
                [JDict [(''type'', JStr ''image''), (''from'', JStr ''5511888888888'')],
                 JDict [(''from'', JStr ''5511999999999''), (''type'', JStr ''sticker'')]])])]])]])]"

definition example_environ :: "string \<rightharpoonup> string" where
  "example_environ =
     [''WHATSAPP_API_TOKEN'' \<mapsto> ''EAAG'',
      ''WHATSAPP_CLOUD_NUMBER_ID'' \<mapsto> ''106540352242922'',
      ''WHATSAPP_HOOK_TOKEN'' \<mapsto> ''segredo'',
      ''OPENAI_API_KEY'' \<mapsto> ''sk-test'']"

text \<open>
  The decimal digits of Unicode 14.0, the database of CPython 3.11, from code point 128
  on: 65 runs of ten consecutive code points, each run the digits 0 to 9 of one script.
\<close>

definition unicode14_digit_zeros :: "nat list" where
  "unicode14_digit_zeros =
     [0x660, 0x6F0, 0x7C0, 0x966, 0x9E6, 0xA66, 0xAE6, 0xB66, 0xBE6, 0xC66, 0xCE6, 0xD66,
      0xDE6, 0xE50, 0xED0, 0xF20, 0x1040, 0x1090, 0x17E0, 0x1810, 0x1946, 0x19D0, 0x1A80,
      0x1A90, 0x1B50, 0x1BB0, 0x1C40, 0x1C50, 0xA620, 0xA8D0, 0xA900, 0xA9D0, 0xA9F0, 0xAA50,
      0xABF0, 0xFF10, 0x104A0, 0x10D30, 0x11066, 0x110F0, 0x11136, 0x111D0, 0x112F0, 0x11450,
      0x114D0, 0x11650, 0x116C0, 0x11730, 0x118E0, 0x11950, 0x11C50, 0x11D50, 0x11DA0,
      0x16A60, 0x16AC0, 0x16B50, 0x1D7CE, 0x1D7D8, 0x1D7E2, 0x1D7EC, 0x1D7F6, 0x1E140,
      0x1E2F0, 0x1E950, 0x1FBF0]"

definition unicode14_decimal :: "nat \<Rightarrow> nat option" where
  "unicode14_decimal cp =
     (case find (\<lambda>zero. zero \<le> cp \<and> cp < zero + 10) unicode14_digit_zeros of
        Some zero \<Rightarrow> Some (cp - zero)
      | None \<Rightarrow> None)"

text \<open>
  A world whose transport answers every post with the given status and body, and whose
  completion service answers every request with the single choice "Use a loop."; its
  interpreter has the default digit limit and the digits of Unicode 14.0.
\<close>

definition stub_world :: "(string \<rightharpoonup> string) \<Rightarrow> int \<Rightarrow> string \<Rightarrow> world" where
  "stub_world env status body =
     \<lparr>environ = env,
      requests_post = (\<lambda>url payload hdrs. Inr \<lparr>status_code = status, response_text = body\<rparr>),
      chat_completions_create = (\<lambda>key req.
        Inr \<lparr>completion_choices =
               [\<lparr>choice_message = \<lparr>message_content = Some ''Use a loop.''\<rparr>\<rparr>]\<rparr>),
      int_max_str_digits = 4300,
      unicode_decimal = unicode14_decimal\<rparr>"

text \<open>A request whose body decodes to the given dict.\<close>

definition request_with :: "dict \<Rightarrow> request" where
  "request_with data = \<lparr>query_params = Map.empty, json_body = Inr (JDict data)\<rparr>"

text \<open>
  A request of the verification handshake with both query parameters; it has no JSON
  body.
\<close>

definition handshake_request :: "string \<Rightarrow> string \<Rightarrow> request" where
  "handshake_request token challenge =
     \<lparr>query_params = [''hub.verify_token'' \<mapsto> token, ''hub.challenge'' \<mapsto> challenge],
      json_body = Inl (ExternalError ''JSONDecodeError'')\<rparr>"

text \<open>The failing payload of C2: a message of type text without the \<^verbatim>\<open>text\<close> key.\<close>

definition missing_text_notification :: dict where
  "missing_text_notification =
     [(''entry'', JList
        [JDict [(''changes'', JList
           [JDict [(''value'', JDict
              [(''messages'', JList
                [JDict [(''type'', JStr ''text''), (''from'', JStr ''5511999999999'')]])])]])]])]"

text \<open>An environment in which \<^verbatim>\<open>OPENAI_API_KEY\<close> is set to the empty string.\<close>

definition empty_key_world :: world where
  "empty_key_world = stub_world (example_environ(''OPENAI_API_KEY'' \<mapsto> [])) 200 ''ok''"

section \<open>The scan finds the first text message\<close>

text \<open>
  On a correctly nested payload each loop computes a \<open>find\<close> over the messages below it:
  the first message of type text decides the result, and nothing after it is read.
\<close>

lemma find_append: "find P (xs @ ys) = (case find P xs of None \<Rightarrow> find P ys | Some x \<Rightarrow> Some x)"
  by (induction xs) auto

lemma ebind_simps [simp]:
  "ebind (Inl e) f = Inl e"
  "ebind (Inr x) f = f x"
  by (simp_all add: ebind_def)

lemma scan_messages_dict:
  "scan_messages (JDict d # rest) =
     (if map_of d ''type'' = Some (JStr ''text'') then ebind (text_reply (JDict d)) (\<lambda>r. Inr (Some r))
      else scan_messages rest)"
  by (simp add: dict_get_def split: option.splits)

lemma find_None_no_text: "\<not> list_ex P xs \<Longrightarrow> find P xs = None"
  by (induction xs) simp_all

lemma find_concat_None: "\<not> list_ex (\<lambda>x. list_ex P (f x)) xs \<Longrightarrow> find P (concat (map f xs)) = None"
  by (induction xs) (simp_all add: find_append find_None_no_text)

lemma is_text_message_dict [simp]:
  "is_text_message (JDict d) = (map_of d ''type'' = Some (JStr ''text''))"
  by (simp add: is_text_message_def)

lemma scan_messages_find:
  "all_until is_dict is_text_message ms \<Longrightarrow>
   scan_messages ms =
     (case find is_text_message ms of
        None \<Rightarrow> Inr None
      | Some m \<Rightarrow> ebind (text_reply m) (\<lambda>r. Inr (Some r)))"
proof (induction ms)
  case Nil
  show ?case by simp
next
  case (Cons m ms)
  from Cons.prems obtain d where m: "m = JDict d"
    by (cases m) (simp_all add: is_dict_def)
  show ?case
  proof (cases "is_text_message m")
    case True
    then show ?thesis
      unfolding m by (simp add: scan_messages_dict del: scan_messages.simps)
  next
    case False
    with Cons.prems have "all_until is_dict is_text_message ms" by simp
    with Cons.IH False show ?thesis
      unfolding m by (simp add: scan_messages_dict del: scan_messages.simps)
  qed
qed

lemma falsy_no_messages:
  "\<not> truthy v \<Longrightarrow>
   (case v of
      JDict vd \<Rightarrow> (case map_of vd ''messages'' of Some (JList ms) \<Rightarrow> ms | _ \<Rightarrow> [])
    | _ \<Rightarrow> []) = []"
  by (cases v) simp_all

lemma scan_changes_step:
  assumes "well_nested_change c"
  shows "scan_changes (c # cs) =
     ebind (scan_messages (messages_of c))
       (\<lambda>found. case found of Some r \<Rightarrow> Inr (Some r) | None \<Rightarrow> scan_changes cs)"
proof -
  from assms obtain d where c: "c = JDict d"
    by (cases c) (simp_all add: well_nested_change_def)
  show ?thesis
  proof (cases "map_of d ''value''")
    case None
    then show ?thesis by (simp add: c messages_of_def dict_get_def)
  next
    case (Some v)
    show ?thesis
    proof (cases "truthy v")
      case False
      with Some show ?thesis
        by (simp add: c messages_of_def dict_get_def falsy_no_messages)
    next
      case True
      with Some assms c obtain vd where v: "v = JDict vd"
        by (cases v) (simp_all add: well_nested_change_def well_nested_value_def)
      show ?thesis
      proof (cases "map_of vd ''messages''")
        case None
        then have "''messages'' \<notin> fst ` set vd" by (simp add: map_of_eq_None_iff)
        with None Some show ?thesis by (simp add: c v messages_of_def dict_get_def)
      next
        case inner: (Some ms)
        from inner have nonempty: "vd \<noteq> []" by auto
        with assms c v Some inner obtain msgs where ms: "ms = JList msgs"
          by (cases ms) (simp_all add: well_nested_change_def well_nested_value_def)
        from inner have "''messages'' \<in> fst ` set vd"
          by (metis map_of_eq_None_iff option.distinct(1))
        with nonempty show ?thesis
          using Some inner by (simp add: c v ms messages_of_def dict_get_def)
      qed
    qed
  qed
qed

lemma well_nested_change_messages:
  "well_nested_change c \<Longrightarrow> all_until is_dict is_text_message (messages_of c)"
  by (auto simp: well_nested_change_def well_nested_value_def messages_of_def
      split: json.splits option.splits)

lemma scan_changes_find:
  "all_until well_nested_change change_has_text cs \<Longrightarrow>
   scan_changes cs =
     (case find is_text_message (concat (map messages_of cs)) of
        None \<Rightarrow> Inr None
      | Some m \<Rightarrow> ebind (text_reply m) (\<lambda>r. Inr (Some r)))"
proof (induction cs)
  case Nil
  show ?case by simp
next
  case (Cons c cs)
  then have c: "well_nested_change c" by simp
  note step = scan_changes_step [OF c] scan_messages_find [OF well_nested_change_messages [OF c]]
  show ?case
  proof (cases "change_has_text c")
    case True
    then obtain m where "find is_text_message (messages_of c) = Some m"
      unfolding change_has_text_def by (cases "find is_text_message (messages_of c)")
        (auto simp: find_None_iff list_ex_iff)
    then show ?thesis
      by (simp add: step find_append ebind_def split: sum.splits del: scan_changes.simps)
  next
    case False
    then have none: "find is_text_message (messages_of c) = None"
      unfolding change_has_text_def by (rule find_None_no_text)
    from False Cons.prems have "all_until well_nested_change change_has_text cs" by simp
    with Cons.IH none show ?thesis
      by (simp add: step find_append del: scan_changes.simps)
  qed
qed

lemma scan_entries_step:
  assumes "well_nested_entry e"
  shows "scan_entries (e # es) =
     ebind (scan_changes (changes_of e))
       (\<lambda>found. case found of Some r \<Rightarrow> Inr (Some r) | None \<Rightarrow> scan_entries es)"
proof -
  from assms obtain d where e: "e = JDict d"
    by (cases e) (simp_all add: well_nested_entry_def)
  show ?thesis
  proof (cases "map_of d ''changes''")
    case None
    then show ?thesis by (simp add: e changes_of_def dict_get_def)
  next
    case (Some v)
    with assms e obtain cs where v: "v = JList cs"
      by (cases v) (simp_all add: well_nested_entry_def)
    with Some show ?thesis by (simp add: e changes_of_def dict_get_def)
  qed
qed

lemma well_nested_entry_changes:
  "well_nested_entry e \<Longrightarrow> all_until well_nested_change change_has_text (changes_of e)"
  by (auto simp: well_nested_entry_def changes_of_def split: json.splits option.splits)

lemma entry_has_text_find:
  "entry_has_text e \<Longrightarrow> \<exists>m. find is_text_message (concat (map messages_of (changes_of e))) = Some m"
  by (cases "find is_text_message (concat (map messages_of (changes_of e)))")
    (auto simp: entry_has_text_def change_has_text_def find_None_iff list_ex_iff)

lemma scan_entries_find:
  "all_until well_nested_entry entry_has_text es \<Longrightarrow>
   scan_entries es =
     (case find is_text_message
             (concat (map (\<lambda>entry. concat (map messages_of (changes_of entry))) es)) of
        None \<Rightarrow> Inr None
      | Some m \<Rightarrow> ebind (text_reply m) (\<lambda>r. Inr (Some r)))"
proof (induction es)
  case Nil
  show ?case by simp
next
  case (Cons e es)
  then have e: "well_nested_entry e" by simp
  note step = scan_entries_step [OF e] scan_changes_find [OF well_nested_entry_changes [OF e]]
  show ?case
  proof (cases "entry_has_text e")
    case True
    then obtain m where "find is_text_message (concat (map messages_of (changes_of e))) = Some m"
      using entry_has_text_find by blast
    then show ?thesis
      by (simp add: step find_append ebind_def split: sum.splits del: scan_entries.simps)
  next
    case False
    then have none: "find is_text_message (concat (map messages_of (changes_of e))) = None"
      unfolding entry_has_text_def change_has_text_def by (rule find_concat_None)
    from False Cons.prems have "all_until well_nested_entry entry_has_text es" by simp
    with Cons.IH none show ?thesis
      by (simp add: step find_append del: scan_entries.simps)
  qed
qed

lemma process_notification_find:
  assumes "well_nested data"
  shows "process_notification (JDict data) =
     (case find is_text_message (all_messages data) of
        None \<Rightarrow> Inr not_processable
      | Some m \<Rightarrow> text_reply m)"
proof (cases "map_of data ''entry''")
  case None
  then show ?thesis
    by (simp add: process_notification_def all_messages_def entries_of_def dict_get_def)
next
  case (Some v)
  with assms obtain es where v: "v = JList es" and es: "all_until well_nested_entry entry_has_text es"
    by (cases v) (simp_all add: well_nested_def)
  from Some v show ?thesis
    by (simp add: process_notification_def all_messages_def entries_of_def dict_get_def
        scan_entries_find [OF es] ebind_def split: option.splits sum.splits)
qed




text \<open>
  C2. A message of type text without the \<^verbatim>\<open>text\<close> key: the subscript \<^verbatim>\<open>message["text"]\<close>
  raises \<^verbatim>\<open>KeyError\<close>, where the comments of the function promise that a missing key is
  no error.
\<close>

theorem process_notification_missing_text:
  "process_notification
     (JDict [(''entry'', JList
        [JDict [(''changes'', JList
           [JDict [(''value'', JDict
              [(''messages'', JList
                [JDict [(''type'', JStr ''text''), (''from'', JStr ''5511999999999'')]])])]])]])])
   = Inl (KeyError ''text'')"
  by (simp add: process_notification_def text_reply_def dict_get_def)

text \<open>
  C3, as stated, fails: the body of the 403 result is not the text "unsupported method".
\<close>

theorem not_processable_body_counterexample:
  "process_notification (JDict []) \<noteq>
     Inr [(''statusCode'', JInt 403),
          (''body'', JStr ''unsupported method''),
          (''isBase64Encoded'', JBool False)]"
  by (simp add: process_notification_def not_processable_def unsupported_body_def dict_get_def)

text \<open>
  C3, amended. A payload without the \<^verbatim>\<open>entry\<close> key, or whose \<^verbatim>\<open>entry\<close> is the empty list, or
  that is correctly nested and holds no message of type text, yields the 403 result,
  whose body is \<^verbatim>\<open>json.dumps\<close> of the Portuguese text of the source.
\<close>

theorem process_notification_not_processable:
  assumes "map_of data ''entry'' = None
     \<or> map_of data ''entry'' = Some (JList [])
     \<or> (well_nested data \<and> list_all (\<lambda>m. \<not> is_text_message m) (all_messages data))"
  shows "process_notification (JDict data) =
           Inr [(''statusCode'', JInt 403),
                (''body'', JStr unsupported_body),
                (''isBase64Encoded'', JBool False)]"
proof -
  have none: "find is_text_message ms = None" if "list_all (\<lambda>m. \<not> is_text_message m) ms" for ms
    using that by (induction ms) simp_all
  from assms consider
      (absent) "map_of data ''entry'' = None"
    | (empty) "map_of data ''entry'' = Some (JList [])"
    | (other) "well_nested data" "list_all (\<lambda>m. \<not> is_text_message m) (all_messages data)"
    by auto
  then show ?thesis
  proof cases
    case absent
    then show ?thesis by (simp add: process_notification_def not_processable_def dict_get_def)
  next
    case empty
    then show ?thesis by (simp add: process_notification_def not_processable_def dict_get_def)
  next
    case other
    then show ?thesis
      by (simp add: process_notification_find none not_processable_def)
  qed
qed

theorem process_notification_not_processable_witness:
  "process_notification (JDict [(''object'', JStr ''whatsapp_business_account'')]) =
     Inr [(''statusCode'', JInt 403), (''body'', JStr unsupported_body),
          (''isBase64Encoded'', JBool False)] \<and>
   process_notification (JDict [(''entry'', JList [])]) =
     Inr [(''statusCode'', JInt 403), (''body'', JStr unsupported_body),
          (''isBase64Encoded'', JBool False)] \<and>
   well_nested image_notification \<and>
   list_all (\<lambda>m. \<not> is_text_message m) (all_messages image_notification) \<and>
   process_notification (JDict image_notification) =
     Inr [(''statusCode'', JInt 403), (''body'', JStr unsupported_body),
          (''isBase64Encoded'', JBool False)]"
proof -
  have wn: "well_nested image_notification"
    by (simp add: image_notification_def well_nested_def well_nested_entry_def
        well_nested_change_def well_nested_value_def is_dict_def is_text_message_def
        entry_has_text_def change_has_text_def changes_of_def messages_of_def)
  have no_text: "list_all (\<lambda>m. \<not> is_text_message m) (all_messages image_notification)"
    by (simp add: image_notification_def all_messages_def entries_of_def changes_of_def
        messages_of_def is_text_message_def)
  show ?thesis
    using wn no_text
      process_notification_not_processable [of "[(''object'', JStr ''whatsapp_business_account'')]"]
      process_notification_not_processable [of "[(''entry'', JList [])]"]
      process_notification_not_processable [of image_notification]
    by simp
qed

section \<open>Sending\<close>

lemma io_simps [simp]:
  "io_bind m f tr = (case m tr of (Inl e, tr') \<Rightarrow> (Inl e, tr') | (Inr x, tr') \<Rightarrow> f x tr')"
  "io_lift r tr = (r, tr)"
  by (simp_all add: io_bind_def io_lift_def)

text \<open>
  C5. Both send methods: when the transport answers the post with a response, the call
  returns 200 if the status is 200 and otherwise raises \<^verbatim>\<open>AssertionError\<close> whose message
  is the method's prefix followed by the text of the response.
\<close>

theorem send_status_assertion:
  "(requests_post w (API_URL self @ ''/messages'') (text_payload message phone_number) (headers self)
      = Inr response \<longrightarrow>
    fst (send_text_message w self message phone_number tr) =
      (if status_code response = 200 then Inr 200
       else Inl (AssertionError (''Erro ao enviar mensagem de texto: '' @ response_text response))))
   \<and>
   (requests_post w (API_URL self @ ''/messages'')
      (template_payload template_name language_code phone_number) (headers self)
      = Inr response' \<longrightarrow>
    fst (send_template_message w self template_name language_code phone_number tr) =
      (if status_code response' = 200 then Inr 200
       else Inl (AssertionError
              (''Erro ao enviar mensagem de template: '' @ response_text response'))))"
  by (simp add: send_text_message_def send_template_message_def post_def)

theorem send_status_assertion_witness:
  "fst (send_text_message (stub_world example_environ 401 ''Invalid OAuth access token'')
          (WhatsAppClient_init example_environ) (JStr ''Use a loop.'') (JStr ''5511999999999'') [])
     = Inl (AssertionError ''Erro ao enviar mensagem de texto: Invalid OAuth access token'') \<and>
   fst (send_template_message (stub_world example_environ 200 ''ok'')
          (WhatsAppClient_init example_environ) (JStr ''hello_world'') (JStr ''en_US'')
          (JStr ''5511999999999'') [])
     = Inr 200"
  using send_status_assertion
      [where w = "stub_world example_environ 401 ''Invalid OAuth access token''"
         and self = "WhatsAppClient_init example_environ"
         and message = "JStr ''Use a loop.''" and phone_number = "JStr ''5511999999999''"
         and response = "\<lparr>status_code = 401, response_text = ''Invalid OAuth access token''\<rparr>"
         and tr = "[]"]
    send_status_assertion
      [where w = "stub_world example_environ 200 ''ok''"
         and self = "WhatsAppClient_init example_environ"
         and template_name = "JStr ''hello_world''" and language_code = "JStr ''en_US''"
         and phone_number = "JStr ''5511999999999''"
         and response' = "\<lparr>status_code = 200, response_text = ''ok''\<rparr>"
         and tr = "[]"]
  by (simp add: stub_world_def)

text \<open>
  C9, as stated, fails: the payload posted by \<^verbatim>\<open>send_text_message\<close> has no
  \<^verbatim>\<open>previewUrl\<close> field under \<^verbatim>\<open>text\<close>, which the documented payload has.
\<close>

theorem text_payload_counterexample:
  "posted_payloads (snd (send_text_message (stub_world example_environ 200 ''ok'')
        (WhatsAppClient_init example_environ) (JStr ''Use a loop.'') (JStr ''5511999999999'') []))
     = [text_payload (JStr ''Use a loop.'') (JStr ''5511999999999'')] \<and>
   subfield (text_payload (JStr ''Use a loop.'') (JStr ''5511999999999'')) ''text'' ''previewUrl''
     = Inl (KeyError ''previewUrl'') \<and>
   subfield (documented_text_payload (JStr ''Use a loop.'') (JStr ''5511999999999''))
       ''text'' ''previewUrl''
     = Inr (JBool False)"
  by (simp add: subfield_def documented_text_payload_def posted_payloads_def send_text_message_def
      post_def text_payload_def stub_world_def)

text \<open>
  C9, amended. \<^verbatim>\<open>send_text_message\<close> makes exactly one post, to the client's URL followed by
  \<^verbatim>\<open>/messages\<close>, with the client's headers and the payload
  \<^verbatim>\<open>{"messaging_product": "whatsapp", "to": recipient, "type": "text",
  "text": {"preview_url": false, "body": message}}\<close>; when the transport answers that post
  with status 200 the call returns 200.
\<close>

theorem send_text_message_payload:
  "snd (send_text_message w self message phone_number tr) =
     tr @ [RequestsPost (API_URL self @ ''/messages'')
             (JDict
                [(''messaging_product'', JStr ''whatsapp''),
                 (''to'', phone_number),
                 (''type'', JStr ''text''),
                 (''text'', JDict [(''preview_url'', JBool False), (''body'', message)])])
             (headers self)]
   \<and> (requests_post w (API_URL self @ ''/messages'') (text_payload message phone_number)
           (headers self) = Inr response \<and> status_code response = 200 \<longrightarrow>
         fst (send_text_message w self message phone_number tr) = Inr 200)"
  by (simp add: send_text_message_def post_def text_payload_def split: sum.splits)

theorem send_text_message_payload_witness:
  "send_text_message (stub_world example_environ 200 ''ok'')
      (WhatsAppClient_init example_environ) (JStr ''Use a loop.'') (JStr ''5511999999999'') []
   = (Inr 200,
      [RequestsPost ''https://graph.facebook.com/v15.0/106540352242922/messages''
         (JDict
            [(''messaging_product'', JStr ''whatsapp''),
             (''to'', JStr ''5511999999999''),
             (''type'', JStr ''text''),
             (''text'', JDict [(''preview_url'', JBool False), (''body'', JStr ''Use a loop.'')])])
         [(''Authorization'', ''Bearer EAAG''), (''Content-Type'', ''application/json'')]])"
proof -
  let ?w = "stub_world example_environ 200 ''ok''"
  let ?self = "WhatsAppClient_init example_environ"
  have post: "requests_post ?w (API_URL ?self @ ''/messages'')
      (text_payload (JStr ''Use a loop.'') (JStr ''5511999999999'')) (headers ?self)
      = Inr \<lparr>status_code = 200, response_text = ''ok''\<rparr>"
    by (simp add: stub_world_def)
  from send_text_message_payload
      [of ?w ?self "JStr ''Use a loop.''" "JStr ''5511999999999''" "[]"
          "\<lparr>status_code = 200, response_text = ''ok''\<rparr>"] post
  have "snd (send_text_message ?w ?self (JStr ''Use a loop.'') (JStr ''5511999999999'') []) =
      [RequestsPost (API_URL ?self @ ''/messages'')
             (JDict
                [(''messaging_product'', JStr ''whatsapp''),
                 (''to'', JStr ''5511999999999''),
                 (''type'', JStr ''text''),
                 (''text'', JDict [(''preview_url'', JBool False), (''body'', JStr ''Use a loop.'')])])
             (headers ?self)]"
    and "fst (send_text_message ?w ?self (JStr ''Use a loop.'') (JStr ''5511999999999'') []) = Inr 200"
    by simp_all
  then show ?thesis
    by (simp add: prod_eq_iff WhatsAppClient_init_def example_environ_def py_str_def)
qed

section \<open>The completion client\<close>

text \<open>
  C7. \<^verbatim>\<open>complete\<close> makes exactly one call, with model \<^verbatim>\<open>gpt-4o\<close> and a context of two
  messages: the fixed developer instruction, then the given text with role \<^verbatim>\<open>user\<close>.
  When the service answers that call with at least one choice, the result is the
  content of the first.
\<close>

theorem complete_context_and_reply:
  "snd (complete w self message tr) =
     tr @ [ChatCompletionsCreate (api_key self)
             \<lparr>model = ''gpt-4o'',
              messages =
                [[(''role'', JStr ''developer''), (''content'', JStr developer_instruction)],
                 [(''role'', JStr ''user''), (''content'', message)]]\<rparr>]
   \<and> (chat_completions_create w (api_key self)
          \<lparr>model = ''gpt-4o'',
           messages =
             [[(''role'', JStr ''developer''), (''content'', JStr developer_instruction)],
              [(''role'', JStr ''user''), (''content'', message)]]\<rparr>
        = Inr completion \<and> completion_choices completion = choice # others \<longrightarrow>
       fst (complete w self message tr) = Inr (message_content (choice_message choice)))"
  by (simp add: complete_def Let_def split: sum.splits list.splits)

theorem complete_context_and_reply_witness:
  "complete (stub_world example_environ 200 ''ok'') \<lparr>api_key = ''sk-test''\<rparr>
      (JStr ''how do I iterate?'') []
   = (Inr (Some ''Use a loop.''),
      [ChatCompletionsCreate ''sk-test''
         \<lparr>model = ''gpt-4o'',
          messages =
            [[(''role'', JStr ''developer''), (''content'', JStr developer_instruction)],
             [(''role'', JStr ''user''), (''content'', JStr ''how do I iterate?'')]]\<rparr>])"
  using complete_context_and_reply
      [where w = "stub_world example_environ 200 ''ok''" and self = "\<lparr>api_key = ''sk-test''\<rparr>"
         and message = "JStr ''how do I iterate?''" and tr = "[]"
         and completion = "\<lparr>completion_choices =
               [\<lparr>choice_message = \<lparr>message_content = Some ''Use a loop.''\<rparr>\<rparr>]\<rparr>"
         and choice = "\<lparr>choice_message = \<lparr>message_content = Some ''Use a loop.''\<rparr>\<rparr>"
         and others = "[]"]
  by (simp add: stub_world_def prod_eq_iff)

text \<open>
  C8, as stated, fails: with \<^verbatim>\<open>OPENAI_API_KEY\<close> present in the environment but empty,
  construction raises \<^verbatim>\<open>ValueError\<close>.
\<close>

theorem present_key_counterexample:
  "environ empty_key_world ''OPENAI_API_KEY'' = Some [] \<and>
   fst (OpenAIClient_init empty_key_world []) = Inl (ValueError missing_key_message)"
  by (simp add: empty_key_world_def stub_world_def OpenAIClient_init_def)

text \<open>
  C8, amended. When \<^verbatim>\<open>OPENAI_API_KEY\<close> is missing or empty, construction raises
  \<^verbatim>\<open>ValueError\<close> and no outbound call has been made; when it is present and not empty,
  construction succeeds with that key, again without any outbound call.
\<close>

theorem OpenAIClient_init_fails_closed:
  "(environ w ''OPENAI_API_KEY'' = None \<or> environ w ''OPENAI_API_KEY'' = Some [] \<longrightarrow>
      OpenAIClient_init w tr = (Inl (ValueError missing_key_message), tr))
   \<and> (environ w ''OPENAI_API_KEY'' = Some k \<and> k \<noteq> [] \<longrightarrow>
      OpenAIClient_init w tr = (Inr \<lparr>api_key = k\<rparr>, tr))"
  by (auto simp: OpenAIClient_init_def)

theorem OpenAIClient_init_fails_closed_witness:
  "OpenAIClient_init (stub_world Map.empty 200 ''ok'') [] = (Inl (ValueError missing_key_message), [])
   \<and> OpenAIClient_init (stub_world example_environ 200 ''ok'') [] = (Inr \<lparr>api_key = ''sk-test''\<rparr>, [])"
  using OpenAIClient_init_fails_closed [where w = "stub_world Map.empty 200 ''ok''" and tr = "[]"]
    OpenAIClient_init_fails_closed
      [where w = "stub_world example_environ 200 ''ok''" and k = "''sk-test''" and tr = "[]"]
  by (simp add: stub_world_def example_environ_def)

section \<open>The verification handshake\<close>

text \<open>
  C6, as stated, fails: with the token accepted and the challenge \<^verbatim>\<open>abc\<close>, present and not
  empty, \<^verbatim>\<open>subscribe\<close> returns neither an integer nor the failure text; \<^verbatim>\<open>int()\<close> raises.
\<close>

theorem subscribe_unconvertible_counterexample:
  "query_params (handshake_request ''segredo'' ''abc'') ''hub.verify_token''
     = environ (stub_world example_environ 200 ''ok'') ''WHATSAPP_HOOK_TOKEN'' \<and>
   query_params (handshake_request ''segredo'' ''abc'') ''hub.challenge'' = Some ''abc'' \<and>
   subscribe (stub_world example_environ 200 ''ok'') (handshake_request ''segredo'' ''abc'')
     = Inl (IntValueError ''abc'')"
  by (simp add: subscribe_def py_int_def decimal_integer_string_def int_text_def ascii_def
      py_strip_def c_isspace_def unsigned_def digit_part_def is_digit_def
      stub_world_def example_environ_def handshake_request_def)

text \<open>
  C6, amended. When the received token equals the configured one and the challenge is
  present, not empty and a decimal integer literal of no more digits than the
  interpreter converts, \<^verbatim>\<open>subscribe\<close> returns the value of the literal as an integer; when
  the token differs, or the challenge is missing or empty, it returns the fixed
  failure text.
\<close>

theorem subscribe_handshake:
  "(query_params request ''hub.verify_token'' = environ w ''WHATSAPP_HOOK_TOKEN''
      \<and> query_params request ''hub.challenge'' = Some c \<and> c \<noteq> []
      \<and> decimal_integer_string w c \<and> \<not> exceeds_digit_limit w c \<longrightarrow>
      subscribe w request = Inr (JInt (literal_value w c)))
   \<and> (query_params request ''hub.verify_token'' \<noteq> environ w ''WHATSAPP_HOOK_TOKEN''
      \<or> query_params request ''hub.challenge'' = None
      \<or> query_params request ''hub.challenge'' = Some [] \<longrightarrow>
      subscribe w request = Inr (JStr authentication_failure))"
  by (auto simp: subscribe_def py_int_def Let_def ebind_def split: option.splits)

lemma literal_123456:
  "decimal_integer_string (stub_world example_environ 200 ''ok'') ''123456''"
  "\<not> exceeds_digit_limit (stub_world example_environ 200 ''ok'') ''123456''"
  "literal_value (stub_world example_environ 200 ''ok'') ''123456'' = 123456"
  by (simp_all add: decimal_integer_string_def exceeds_digit_limit_def literal_value_def
      int_text_def ascii_def py_strip_def c_isspace_def unsigned_def digit_part_def is_digit_def
      digits_value_def)

text \<open>
  The challenge \<^verbatim>\<open>-1_000\<close> between a non-breaking space and a line feed, its digits
  written in Arabic-Indic script (U+0661, U+0660), as UTF-8.
\<close>

lemma literal_arabic_indic:
  "decimal_integer_string (stub_world example_environ 200 ''ok'')
     ([CHR 0xC2, CHR 0xA0] @ ''-'' @ [CHR 0xD9, CHR 0xA1] @ ''_''
        @ [CHR 0xD9, CHR 0xA0, CHR 0xD9, CHR 0xA0, CHR 0xD9, CHR 0xA0, CHR 0x0A])"
  "\<not> exceeds_digit_limit (stub_world example_environ 200 ''ok'')
     ([CHR 0xC2, CHR 0xA0] @ ''-'' @ [CHR 0xD9, CHR 0xA1] @ ''_''
        @ [CHR 0xD9, CHR 0xA0, CHR 0xD9, CHR 0xA0, CHR 0xD9, CHR 0xA0, CHR 0x0A])"
  "literal_value (stub_world example_environ 200 ''ok'')
     ([CHR 0xC2, CHR 0xA0] @ ''-'' @ [CHR 0xD9, CHR 0xA1] @ ''_''
        @ [CHR 0xD9, CHR 0xA0, CHR 0xD9, CHR 0xA0, CHR 0xD9, CHR 0xA0, CHR 0x0A]) = - 1000"
  by (simp_all add: decimal_integer_string_def exceeds_digit_limit_def literal_value_def
      int_text_def ascii_def py_strip_def c_isspace_def unsigned_def digit_part_def is_digit_def
      digits_value_def stub_world_def continuation_def unicode_space_def unicode14_decimal_def
      unicode14_digit_zeros_def char_of_eq_iff)

theorem subscribe_handshake_witness:
  "subscribe (stub_world example_environ 200 ''ok'') (handshake_request ''segredo'' ''123456'')
     = Inr (JInt 123456)
   \<and> subscribe (stub_world example_environ 200 ''ok'')
       (handshake_request ''segredo''
          ([CHR 0xC2, CHR 0xA0] @ ''-'' @ [CHR 0xD9, CHR 0xA1] @ ''_''
             @ [CHR 0xD9, CHR 0xA0, CHR 0xD9, CHR 0xA0, CHR 0xD9, CHR 0xA0, CHR 0x0A]))
     = Inr (JInt (- 1000))
   \<and> subscribe (stub_world example_environ 200 ''ok'') (handshake_request ''errado'' ''123456'')
     = Inr (JStr authentication_failure)"
proof -
  let ?w = "stub_world example_environ 200 ''ok''"
  let ?c = "[CHR 0xC2, CHR 0xA0] @ ''-'' @ [CHR 0xD9, CHR 0xA1] @ ''_''
             @ [CHR 0xD9, CHR 0xA0, CHR 0xD9, CHR 0xA0, CHR 0xD9, CHR 0xA0, CHR 0x0A]"
  have token: "query_params (handshake_request ''segredo'' c) ''hub.verify_token''
      = environ ?w ''WHATSAPP_HOOK_TOKEN''"
    and challenge: "query_params (handshake_request ''segredo'' c) ''hub.challenge'' = Some c"
    for c
    by (simp_all add: stub_world_def example_environ_def handshake_request_def)
  have 1: "subscribe ?w (handshake_request ''segredo'' ''123456'') = Inr (JInt 123456)"
    using subscribe_handshake
        [where request = "handshake_request ''segredo'' ''123456''" and w = ?w
           and c = "''123456''"]
      token challenge literal_123456
    by simp
  have 2: "subscribe ?w (handshake_request ''segredo'' ?c) = Inr (JInt (- 1000))"
    using subscribe_handshake
        [where request = "handshake_request ''segredo'' ?c" and w = ?w and c = ?c]
      token [of ?c] challenge [of ?c] literal_arabic_indic
    by simp
  have 3: "subscribe ?w (handshake_request ''errado'' ''123456'')
      = Inr (JStr authentication_failure)"
    using subscribe_handshake
        [where request = "handshake_request ''errado'' ''123456''" and w = ?w]
    by (simp add: stub_world_def example_environ_def handshake_request_def)
  from 1 2 3 show ?thesis by blast
qed

text \<open>
  C10. With the token accepted and a challenge that is not empty and is not a decimal
  integer literal, \<^verbatim>\<open>subscribe\<close> raises the \<^verbatim>\<open>ValueError\<close> of \<^verbatim>\<open>int()\<close>: nothing guards the
  conversion.
\<close>

theorem subscribe_invalid_challenge:
  assumes "query_params request ''hub.verify_token'' = environ w ''WHATSAPP_HOOK_TOKEN''"
    and "query_params request ''hub.challenge'' = Some c"
    and "c \<noteq> []"
    and "\<not> decimal_integer_string w c"
  shows "subscribe w request = Inl (IntValueError c)"
  using assms by (simp add: subscribe_def py_int_def ebind_def)

text \<open>
  Three challenges that are no literal: \<^verbatim>\<open>12a\<close>, the digit 5 after the unit separator
  (code 31), and the letter e with acute accent (U+00E9, as UTF-8).
\<close>

lemma not_literals:
  "\<not> decimal_integer_string (stub_world example_environ 200 ''ok'') ''12a''"
  "\<not> decimal_integer_string (stub_world example_environ 200 ''ok'') (CHR 0x1F # ''5'')"
  "\<not> decimal_integer_string (stub_world example_environ 200 ''ok'') [CHR 0xC3, CHR 0xA9]"
  by (simp_all add: decimal_integer_string_def int_text_def ascii_def py_strip_def c_isspace_def
      unsigned_def digit_part_def is_digit_def stub_world_def continuation_def unicode_space_def
      unicode14_decimal_def unicode14_digit_zeros_def char_of_eq_iff)

theorem subscribe_invalid_challenge_witness:
  "subscribe (stub_world example_environ 200 ''ok'') (handshake_request ''segredo'' ''12a'')
     = Inl (IntValueError ''12a'')
   \<and> subscribe (stub_world example_environ 200 ''ok'')
       (handshake_request ''segredo'' (CHR 0x1F # ''5''))
     = Inl (IntValueError (CHR 0x1F # ''5''))
   \<and> subscribe (stub_world example_environ 200 ''ok'')
       (handshake_request ''segredo'' [CHR 0xC3, CHR 0xA9])
     = Inl (IntValueError [CHR 0xC3, CHR 0xA9])"
proof -
  let ?w = "stub_world example_environ 200 ''ok''"
  have token: "query_params (handshake_request ''segredo'' c) ''hub.verify_token''
      = environ ?w ''WHATSAPP_HOOK_TOKEN''"
    and challenge: "query_params (handshake_request ''segredo'' c) ''hub.challenge'' = Some c"
    for c
    by (simp_all add: stub_world_def example_environ_def handshake_request_def)
  show ?thesis
    using subscribe_invalid_challenge [OF token challenge _ not_literals(1)]
      subscribe_invalid_challenge [OF token challenge _ not_literals(2)]
      subscribe_invalid_challenge [OF token challenge _ not_literals(3)]
    by simp
qed

section \<open>The notification callback\<close>

lemma truthy_getitem:
  "truthy (dict_get d k JNull) \<Longrightarrow> py_getitem (JDict d) k = Inr (dict_get d k JNull)"
  by (cases "map_of d k") (simp_all add: dict_get_def)

lemma callback_actionable:
  assumes "json_body request = Inr data" and "process_notification data = Inr response"
    and "actionable response"
  shows "callback w request tr =
     (case OpenAIClient_init w tr of
        (Inl e, t0) \<Rightarrow> (Inl e, t0)
      | (Inr openai_client, t0) \<Rightarrow>
          (case complete w openai_client (dict_get response ''body'' JNull) t0 of
             (Inl e, t1) \<Rightarrow> (Inl e, t1)
           | (Inr reply, t1) \<Rightarrow>
               (case send_text_message w (WhatsAppClient_init (environ w)) (json_of_reply reply)
                       (dict_get response ''from_no'' JNull) t1 of
                  (Inl e, t2) \<Rightarrow> (Inl e, t2)
                | (Inr sent, t2) \<Rightarrow> (Inr success, t2))))"
proof -
  from assms(3) have body: "py_getitem (JDict response) ''body'' = Inr (dict_get response ''body'' JNull)"
    and from_no: "py_getitem (JDict response) ''from_no'' = Inr (dict_get response ''from_no'' JNull)"
    unfolding actionable_def by (blast intro: truthy_getitem)+
  from assms show ?thesis
    unfolding actionable_def callback_def Let_def
    by (simp add: body from_no del: py_getitem.simps split: prod.splits sum.splits)
qed

lemma callback_not_actionable:
  assumes "json_body request = Inr data" and "process_notification data = Inr response"
    and "\<not> actionable response"
  shows "callback w request tr = (Inr success, tr)"
  using assms unfolding actionable_def callback_def Let_def by auto

lemma callback_success_or_raise:
  "fst (callback w request tr) = Inr success \<or> (\<exists>e. fst (callback w request tr) = Inl e)"
proof (cases "json_body request")
  case (Inl e)
  then show ?thesis by (simp add: callback_def)
next
  case body: (Inr data)
  show ?thesis
  proof (cases "process_notification data")
    case (Inl e)
    with body show ?thesis by (simp add: callback_def)
  next
    case (Inr response)
    show ?thesis
    proof (cases "actionable response")
      case True
      show ?thesis
        unfolding callback_actionable [OF body Inr True]
        by (simp split: prod.splits sum.splits)
    next
      case False
      show ?thesis
        unfolding callback_not_actionable [OF body Inr False] by simp
    qed
  qed
qed

lemma example_notification_parsed:
  "process_notification (JDict example_notification) =
     Inr [(''statusCode'', JInt 200),
          (''body'', JStr ''what is a pointer?''),
          (''from_no'', JStr ''5511999999999''),
          (''isBase64Encoded'', JBool False)]"
  by (simp add: example_notification_def process_notification_def text_reply_def dict_get_def
      ebind_def)

lemma image_notification_parsed:
  "process_notification (JDict image_notification) = Inr not_processable"
  by (simp add: image_notification_def process_notification_def text_reply_def dict_get_def
      ebind_def)

lemma missing_text_notification_parsed:
  "process_notification (JDict missing_text_notification) = Inl (KeyError ''text'')"
  by (simp add: missing_text_notification_def process_notification_def text_reply_def dict_get_def
      ebind_def)

text \<open>
  C4, as stated, fails: when the transport answers the send with status 500, the
  \<^verbatim>\<open>AssertionError\<close> of \<^verbatim>\<open>send_text_message\<close> leaves \<^verbatim>\<open>callback\<close> and no response is returned.
\<close>

theorem callback_send_failure_counterexample:
  "fst (callback (stub_world example_environ 500 ''Internal Server Error'')
          (request_with example_notification) [])
     = Inl (AssertionError ''Erro ao enviar mensagem de texto: Internal Server Error'')"
  by (simp add: callback_def request_with_def example_notification_parsed dict_get_def
      OpenAIClient_init_def stub_world_def example_environ_def complete_def Let_def
      send_text_message_def post_def json_of_reply_def)

text \<open>
  C4, amended. \<^verbatim>\<open>callback\<close> either returns the pair of \<^verbatim>\<open>{"status": "success"}\<close> and 200 or
  raises. An exception of the body decoder or of \<^verbatim>\<open>process_notification\<close> leaves the
  handler. When the parse result is not actionable the handler returns the success
  pair without any outbound call. When it is actionable the handler constructs the
  completion client, calls \<^verbatim>\<open>complete\<close> with the body and \<^verbatim>\<open>send_text_message\<close> with the reply
  and the sender, in that order; the first exception among them leaves the handler, and
  the success pair is returned when none is raised.
\<close>

theorem callback_success_unless_raised:
  "(fst (callback w request tr) = Inr success \<or> (\<exists>e. fst (callback w request tr) = Inl e))
   \<and> (json_body request = Inl e \<longrightarrow> callback w request tr = (Inl e, tr))
   \<and> (json_body request = Inr data \<and> process_notification data = Inl e \<longrightarrow>
        callback w request tr = (Inl e, tr))
   \<and> (json_body request = Inr data \<and> process_notification data = Inr response
        \<and> \<not> actionable response \<longrightarrow>
        callback w request tr = (Inr success, tr))
   \<and> (json_body request = Inr data \<and> process_notification data = Inr response
        \<and> actionable response \<longrightarrow>
        callback w request tr =
          (case OpenAIClient_init w tr of
             (Inl e, t0) \<Rightarrow> (Inl e, t0)
           | (Inr openai_client, t0) \<Rightarrow>
               (case complete w openai_client (dict_get response ''body'' JNull) t0 of
                  (Inl e, t1) \<Rightarrow> (Inl e, t1)
                | (Inr reply, t1) \<Rightarrow>
                    (case send_text_message w (WhatsAppClient_init (environ w))
                            (json_of_reply reply) (dict_get response ''from_no'' JNull) t1 of
                       (Inl e, t2) \<Rightarrow> (Inl e, t2)
                     | (Inr sent, t2) \<Rightarrow> (Inr success, t2)))))"
proof (intro conjI impI)
  show "fst (callback w request tr) = Inr success \<or> (\<exists>e. fst (callback w request tr) = Inl e)"
    by (rule callback_success_or_raise)
next
  assume "json_body request = Inl e"
  then show "callback w request tr = (Inl e, tr)" by (simp add: callback_def)
next
  assume "json_body request = Inr data \<and> process_notification data = Inl e"
  then show "callback w request tr = (Inl e, tr)" by (simp add: callback_def)
next
  assume "json_body request = Inr data \<and> process_notification data = Inr response
        \<and> \<not> actionable response"
  then show "callback w request tr = (Inr success, tr)"
    by (simp add: callback_not_actionable)
next
  assume "json_body request = Inr data \<and> process_notification data = Inr response
        \<and> actionable response"
  then show "callback w request tr =
          (case OpenAIClient_init w tr of
             (Inl e, t0) \<Rightarrow> (Inl e, t0)
           | (Inr openai_client, t0) \<Rightarrow>
               (case complete w openai_client (dict_get response ''body'' JNull) t0 of
                  (Inl e, t1) \<Rightarrow> (Inl e, t1)
                | (Inr reply, t1) \<Rightarrow>
                    (case send_text_message w (WhatsAppClient_init (environ w))
                            (json_of_reply reply) (dict_get response ''from_no'' JNull) t1 of
                       (Inl e, t2) \<Rightarrow> (Inl e, t2)
                     | (Inr sent, t2) \<Rightarrow> (Inr success, t2))))"
    by (simp only: callback_actionable)
qed

theorem callback_success_unless_raised_witness:
  "callback (stub_world example_environ 200 ''ok'') (handshake_request ''segredo'' ''123456'') []
     = (Inl (ExternalError ''JSONDecodeError''), [])
   \<and> callback (stub_world example_environ 200 ''ok'') (request_with missing_text_notification) []
     = (Inl (KeyError ''text''), [])
   \<and> callback (stub_world example_environ 200 ''ok'') (request_with image_notification) []
     = (Inr success, [])
   \<and> callback (stub_world example_environ 200 ''ok'') (request_with example_notification) []
     = (Inr success,
        [ChatCompletionsCreate ''sk-test''
           \<lparr>model = ''gpt-4o'',
            messages =
              [[(''role'', JStr ''developer''), (''content'', JStr developer_instruction)],
               [(''role'', JStr ''user''), (''content'', JStr ''what is a pointer?'')]]\<rparr>,
         RequestsPost ''https://graph.facebook.com/v15.0/106540352242922/messages''
           (text_payload (JStr ''Use a loop.'') (JStr ''5511999999999''))
           [(''Authorization'', ''Bearer EAAG''), (''Content-Type'', ''application/json'')]])"
proof -
  let ?w = "stub_world example_environ 200 ''ok''"
  note c = callback_success_unless_raised [where w = ?w and tr = "[]"]
  have 1: "callback ?w (handshake_request ''segredo'' ''123456'') []
     = (Inl (ExternalError ''JSONDecodeError''), [])"
    using c [where request = "handshake_request ''segredo'' ''123456''"
               and e = "ExternalError ''JSONDecodeError''"]
    by (simp add: handshake_request_def)
  have 2: "callback ?w (request_with missing_text_notification) [] = (Inl (KeyError ''text''), [])"
    using c [where request = "request_with missing_text_notification"
               and data = "JDict missing_text_notification" and e = "KeyError ''text''"]
    by (simp add: request_with_def missing_text_notification_parsed)
  have 3: "callback ?w (request_with image_notification) [] = (Inr success, [])"
    using c [where request = "request_with image_notification"
               and data = "JDict image_notification" and response = not_processable]
    by (simp add: request_with_def image_notification_parsed actionable_def not_processable_def
        dict_get_def)
  have 4: "callback ?w (request_with example_notification) []
     = (Inr success,
        [ChatCompletionsCreate ''sk-test''
           \<lparr>model = ''gpt-4o'',
            messages =
              [[(''role'', JStr ''developer''), (''content'', JStr developer_instruction)],
               [(''role'', JStr ''user''), (''content'', JStr ''what is a pointer?'')]]\<rparr>,
         RequestsPost ''https://graph.facebook.com/v15.0/106540352242922/messages''
           (text_payload (JStr ''Use a loop.'') (JStr ''5511999999999''))
           [(''Authorization'', ''Bearer EAAG''), (''Content-Type'', ''application/json'')]])"
    using c [where request = "request_with example_notification"
               and data = "JDict example_notification"
               and response = "[(''statusCode'', JInt 200),
          (''body'', JStr ''what is a pointer?''),
          (''from_no'', JStr ''5511999999999''),
          (''isBase64Encoded'', JBool False)]"]
    by (simp add: request_with_def example_notification_parsed actionable_def dict_get_def
        OpenAIClient_init_def stub_world_def example_environ_def complete_def Let_def
        send_text_message_def post_def json_of_reply_def WhatsAppClient_init_def py_str_def)
  from 1 2 3 4 show ?thesis by blast
qed

end
